theory Spec2Isabelle
  imports Complex_Main "HOL-Library.Product_Lexorder"
begin

section \<open>Python values, exceptions and arrays\<close>

text \<open>
  An exception is a value: its Python class and the name the message is about.
  A function that may raise returns \<open>error + 'a\<close>, with \<open>Inl\<close> for the raise.
  Floats are modelled as reals and complex floats as complex numbers, so the
  arithmetic below is exact.
\<close>

datatype error =
    ValueError string
  | TypeError string
  | UnboundLocalError string
  | UnitConversionError string
  | IndexError string

definition and_then :: "error + 'a \<Rightarrow> ('a \<Rightarrow> error + 'b) \<Rightarrow> error + 'b" where
  "and_then m f = (case m of Inl e \<Rightarrow> Inl e | Inr x \<Rightarrow> f x)"

text \<open>
  A Quantity (or its bare numpy array) is its shape and its entries in row-major
  order, in the unit of the annotation (T, rad/s, 1/m3, rad, K, m/s).
\<close>

record ndarray =
  shape :: "nat list"
  data :: "real list"

definition well_formed :: "ndarray \<Rightarrow> bool" where
  "well_formed a = (length (data a) = prod_list (shape a))"

definition ndim :: "ndarray \<Rightarrow> nat" where
  "ndim a = length (shape a)"

definition size_nd :: "ndarray \<Rightarrow> nat" where
  "size_nd a = prod_list (shape a)"

definition squeeze :: "ndarray \<Rightarrow> ndarray" where
  "squeeze a = a\<lparr>shape := filter (\<lambda>d. d \<noteq> 1) (shape a)\<rparr>"

definition item :: "ndarray \<Rightarrow> real" where
  "item a = hd (data a)"

definition scalar :: "real \<Rightarrow> ndarray" where
  "scalar x = \<lparr>shape = [], data = [x]\<rparr>"

definition array1 :: "real list \<Rightarrow> ndarray" where
  "array1 xs = \<lparr>shape = [length xs], data = xs\<rparr>"

definition array2 :: "nat \<Rightarrow> nat \<Rightarrow> real list \<Rightarrow> ndarray" where
  "array2 r c xs = \<lparr>shape = [r, c], data = xs\<rparr>"

definition np_repeat :: "real list \<Rightarrow> nat \<Rightarrow> real list" where
  "np_repeat xs k = concat (map (replicate k) xs)"

definition negative :: "ndarray \<Rightarrow> ndarray" where
  "negative a = a\<lparr>data := map uminus (data a)\<rparr>"

text \<open>
  Modelled from the spec: the decorator \<open>validate_quantities\<close> of
  \<open>plasmapy.utils.decorators\<close>, which is not among the source files. The source
  declares, where it applies the decorator, which arguments can not be negative
  (\<open>B\<close>, \<open>n_i\<close> and \<open>w\<close> of \<open>stix\<close>, lines 20 to 24; \<open>T\<close> of \<open>validate.temp\<close>,
  lines 93 to 95); the spec has the input validator enforce the sign constraints
  before the function runs and raise at once (sections 2 and 7). A zero passes.
\<close>

definition has_negative :: "ndarray \<Rightarrow> bool" where
  "has_negative a = list_ex (\<lambda>x. x < 0) (data a)"

definition validate_quantities :: "ndarray list \<Rightarrow> error + unit" where
  "validate_quantities args =
     (if list_ex has_negative args
      then Inl (ValueError ''can not contain negative numbers'')
      else Inr ())"

section \<open>Particles\<close>

record particle =
  symbol :: string
  is_ion :: bool
  charge_number :: int
  mass :: real

definition electron :: particle where
  "electron = \<lparr>symbol = ''e-'', is_ion = False, charge_number = - 1,
                mass = 9.1093837015 / 10 ^ 31\<rparr>"

definition proton :: particle where
  "proton = \<lparr>symbol = ''p+'', is_ion = True, charge_number = 1,
              mass = 1.67262192369 / 10 ^ 27\<rparr>"

definition hydrogen_atom :: particle where
  "hydrogen_atom = \<lparr>symbol = ''H'', is_ion = False, charge_number = 0,
                     mass = 1.6735575 / 10 ^ 27\<rparr>"

text \<open>The \<open>ions\<close> argument is one particle or a list (or tuple) of particles.\<close>

datatype ions_arg = One particle | Many "particle list"

definition as_list :: "ions_arg \<Rightarrow> particle list" where
  "as_list arg = (case arg of One p \<Rightarrow> [p] | Many ps \<Rightarrow> ps)"

section \<open>numpy.roots and numpy.sort\<close>

text \<open>
  \<open>numpy.roots\<close> strips the leading and the trailing zero coefficients, takes the
  eigenvalues of the companion matrix of what is left, and appends one root 0 for
  each trailing zero stripped; an all-zero polynomial has no roots. The
  eigenvalues of the companion matrix are the roots of the stripped polynomial
  with their multiplicities; they are given here in closed form for the stripped
  polynomials of degree at most 2 and for the biquadratic ones, which are the only
  ones that \<open>[a, 0, b, 0, c]\<close> strips to.
\<close>

fun companion_eigvals :: "complex list \<Rightarrow> complex list" where
  "companion_eigvals [p0, p1] = [- p1 / p0]"
| "companion_eigvals [p0, p1, p2] =
     (let d = csqrt (p1\<^sup>2 - 4 * p0 * p2)
      in [(- p1 + d) / (2 * p0), (- p1 - d) / (2 * p0)])"
| "companion_eigvals [p0, p1, p2, p3, p4] =
     (let d = csqrt (p2\<^sup>2 - 4 * p0 * p4);
          y1 = (- p2 + d) / (2 * p0);
          y2 = (- p2 - d) / (2 * p0)
      in [csqrt y1, - csqrt y1, csqrt y2, - csqrt y2])"
| "companion_eigvals p = []"

definition np_roots :: "complex list \<Rightarrow> complex list" where
  "np_roots p =
     (let non_zero = filter (\<lambda>i. p ! i \<noteq> 0) [0..<length p]
      in if non_zero = [] then []
         else let trailing_zeros = length p - last non_zero - 1;
                  p' = take (last non_zero + 1 - hd non_zero) (drop (hd non_zero) p)
              in companion_eigvals p' @ replicate trailing_zeros 0)"

text \<open>\<open>numpy.sort\<close> orders complex numbers by real part, then by imaginary part.\<close>

definition np_sort :: "complex list \<Rightarrow> complex list" where
  "np_sort zs = sort_key (\<lambda>z. (Re z, Im z)) zs"

section \<open>The Stix solver (\<open>stix_.py\<close>)\<close>

definition c_si_unitless :: real where
  "c_si_unitless = 299792458"

text \<open>Lines 151 to 161: the \<open>ions\<close> argument.\<close>

definition stix_ions :: "ions_arg \<Rightarrow> error + particle list" where
  "stix_ions arg =
     (let ions = as_list arg
      in if \<not> list_all (\<lambda>ion. is_ion ion \<and> charge_number ion > 0) ions
         then Inl (ValueError ''ions'')
         else Inr ions)"

text \<open>Lines 163 to 179: the shape of \<open>n_i\<close>, then its broadcast to one density per ion.\<close>

definition stix_n_i :: "particle list \<Rightarrow> ndarray \<Rightarrow> error + real list" where
  "stix_n_i ions n_i =
     (if ndim n_i \<noteq> 0 \<and> ndim n_i \<noteq> 1 then Inl (ValueError ''n_i'')
      else if ndim n_i = 1 \<and> size_nd n_i \<noteq> length ions then Inl (ValueError ''n_i'')
      else if ndim n_i = 0 then Inr (replicate (length ions) (item n_i))
      else if size_nd n_i = 1 then Inr (np_repeat (data n_i) (length ions))
      else Inr (data n_i))"

text \<open>Lines 181 to 184: the electron is appended, with the density that makes the plasma neutral.\<close>

definition stix_species :: "particle list \<Rightarrow> particle list" where
  "stix_species ions = ions @ [electron]"

definition stix_densities :: "particle list \<Rightarrow> real list \<Rightarrow> real list" where
  "stix_densities ions n_i =
     (let zeros = replicate (length n_i + 1) 0;
          densities = n_i @ drop (length n_i) zeros;
          total = sum_list (map2 (\<lambda>n z. n * real_of_int z) n_i (map charge_number ions))
      in densities[length densities - 1 := total])"

text \<open>Lines 186 to 192: \<open>B\<close>.\<close>

definition stix_B :: "ndarray \<Rightarrow> error + real" where
  "stix_B B =
     (let B = squeeze B
      in if ndim B \<noteq> 0 then Inl (ValueError ''B'') else Inr (item B))"

text \<open>
  Lines 194 to 204: \<open>w\<close>. A scalar \<open>w\<close> becomes a bare array of one entry; a 1-D \<open>w\<close>
  stays the Quantity it was.
\<close>

definition stix_w :: "ndarray \<Rightarrow> error + ndarray" where
  "stix_w w =
     (let w = squeeze w
      in if \<not> (ndim w = 0 \<or> ndim w = 1) then Inl (ValueError ''w'')
         else if list_ex (\<lambda>x. x \<le> 0) (data w) then Inl (ValueError ''w'')
         else Inr w)"

text \<open>
  Lines 206 to 215: \<open>theta\<close>. The message of the TypeError reads \<open>k.shape\<close>, and \<open>k\<close> is
  a local variable that is assigned only at line 255, so evaluating the message
  raises UnboundLocalError before the TypeError is built.
\<close>

definition stix_theta :: "ndarray \<Rightarrow> error + real list" where
  "stix_theta theta =
     (let theta = squeeze theta
      in if ndim theta \<noteq> 0 \<and> ndim theta \<noteq> 1 then Inl (UnboundLocalError ''k'')
         else if ndim theta = 0 then Inr [item theta]
         else Inr (data theta))"

text \<open>Lines 227 to 238: the loop over the species.\<close>

fun stix_SPD_loop ::
  "real \<Rightarrow> real list \<Rightarrow> real list \<Rightarrow> nat list \<Rightarrow> real \<times> real \<times> real \<Rightarrow> real \<times> real \<times> real" where
  "stix_SPD_loop w wps wcs [] acc = acc"
| "stix_SPD_loop w wps wcs (i # is) (S, P, D) =
     stix_SPD_loop w wps wcs is
       (S - ((wps ! i)\<^sup>2) / (w\<^sup>2 + (wcs ! i)\<^sup>2),
        P - (wps ! i / w)\<^sup>2,
        D + (((wps ! i)\<^sup>2) / (w\<^sup>2 + (wcs ! i)\<^sup>2)) * (wcs ! i / w))"

definition stix_SPD :: "real \<Rightarrow> real list \<Rightarrow> real list \<Rightarrow> real \<times> real \<times> real" where
  "stix_SPD w wps wcs = stix_SPD_loop w wps wcs [0..<length wps] (1, 1, 0)"

text \<open>Lines 240 to 252: the coefficients for one angle.\<close>

definition stix_A :: "real \<Rightarrow> real \<Rightarrow> real \<Rightarrow> real" where
  "stix_A S P th = S * (sin th)\<^sup>2 + P * (cos th)\<^sup>2"

definition stix_B_coef :: "real \<Rightarrow> real \<Rightarrow> real \<Rightarrow> real \<Rightarrow> real \<Rightarrow> real" where
  "stix_B_coef S P R L th = - (R * L * (sin th)\<^sup>2 + P * S * (1 + (cos th)\<^sup>2))"

definition stix_C :: "real \<Rightarrow> real \<Rightarrow> real \<Rightarrow> real" where
  "stix_C P R L = P * R * L"

text \<open>Lines 254 to 264: the loop over the angles, which fills the dictionary \<open>k\<close>.\<close>

definition stix_coefficients :: "real \<Rightarrow> real \<Rightarrow> real \<Rightarrow> real \<Rightarrow> complex list" where
  "stix_coefficients w Ai Bi Ci =
     (let arg = c_si_unitless / w;
          a = arg * Ai;
          b = arg * Bi;
          c = Ci
      in [complex_of_real a, 0, complex_of_real b, 0, complex_of_real c])"

fun stix_solve ::
  "real \<Rightarrow> real list \<Rightarrow> real list \<Rightarrow> real list \<Rightarrow> real list \<Rightarrow> nat list \<Rightarrow>
   (real \<rightharpoonup> complex list) \<Rightarrow> (real \<rightharpoonup> complex list)" where
  "stix_solve w theta A B C [] k = k"
| "stix_solve w theta A B C (i # is) k =
     stix_solve w theta A B C is
       (k(theta ! i \<mapsto> np_sort (np_roots (stix_coefficients w (A ! i) (B ! i) (C ! i)))))"

text \<open>Lines 217 to 225: the frequencies of the species, from the two collaborators.\<close>

definition stix_wps :: "(real \<Rightarrow> particle \<Rightarrow> real) \<Rightarrow> particle list \<Rightarrow> real list \<Rightarrow> real list" where
  "stix_wps plasma_frequency species densities =
     map (\<lambda>(par, dens). plasma_frequency dens par) (zip species densities)"

definition stix_wcs ::
  "(real \<Rightarrow> particle \<Rightarrow> real) \<Rightarrow> real \<Rightarrow> particle list \<Rightarrow> real list \<Rightarrow> real list" where
  "stix_wcs gyrofrequency B species densities =
     map (\<lambda>(par, dens). gyrofrequency B par) (zip species densities)"

text \<open>Lines 227 to 266: the scalars, the coefficients and the roots.\<close>

definition stix_core :: "real \<Rightarrow> real list \<Rightarrow> real list \<Rightarrow> real list \<Rightarrow> (real \<rightharpoonup> complex list)" where
  "stix_core w wps wcs theta =
     (let (S, P, D) = stix_SPD w wps wcs;
          R = S + D;
          L = S - D;
          A = map (\<lambda>i. stix_A S P (theta ! i)) [0..<length theta];
          B = map (\<lambda>i. stix_B_coef S P R L (theta ! i)) [0..<length theta];
          C = map (\<lambda>i. stix_C P R L) [0..<length theta]
      in stix_solve w theta A B C [0..<length theta] Map.empty)"

text \<open>
  The function, behind its decorator: \<open>plasma_frequency\<close> and \<open>gyrofrequency\<close> are the
  two collaborators it imports. Only a scalar \<open>w\<close> is unwrapped to a bare array
  (line 203); a 1-D \<open>w\<close> keeps its unit, and the first update of \<open>S\<close>, which adds
  the bare float \<open>wcs[i] ** 2\<close> to \<open>w ** 2\<close> and subtracts the quotient from the bare
  1, is refused by the unit check of the Quantity. With a scalar \<open>w\<close> the arrays
  \<open>S\<close>, \<open>P\<close>, \<open>D\<close> and the coefficients have one entry each, and each is
  modelled by that entry.
\<close>

definition stix ::
  "(real \<Rightarrow> particle \<Rightarrow> real) \<Rightarrow> (real \<Rightarrow> particle \<Rightarrow> real) \<Rightarrow>
   ndarray \<Rightarrow> ndarray \<Rightarrow> ions_arg \<Rightarrow> ndarray \<Rightarrow> ndarray \<Rightarrow> error + (real \<rightharpoonup> complex list)" where
  "stix plasma_frequency gyrofrequency B w ions n_i theta =
     and_then (validate_quantities [B, w, n_i]) (\<lambda>_.
     and_then (stix_ions ions) (\<lambda>ions.
     and_then (stix_n_i ions n_i) (\<lambda>n_i.
     and_then (stix_B B) (\<lambda>B.
     and_then (stix_w w) (\<lambda>w.
     and_then (stix_theta theta) (\<lambda>theta.
       if ndim w \<noteq> 0 then Inl (UnitConversionError ''w'')
       else let species = stix_species ions;
                densities = stix_densities ions n_i;
                wps = stix_wps plasma_frequency species densities;
                wcs = stix_wcs gyrofrequency B species densities
            in Inr (stix_core (item w) wps wcs theta)))))))"

text \<open>
  What one pass of the loop of lines 257 to 264 stores for the angle \<open>th\<close>, from the
  scalars \<open>S\<close>, \<open>P\<close> and \<open>D\<close>.
\<close>

definition stix_roots_at :: "real \<Rightarrow> real \<Rightarrow> real \<Rightarrow> real \<Rightarrow> real \<Rightarrow> complex list" where
  "stix_roots_at w S P D th =
     np_sort (np_roots (stix_coefficients w (stix_A S P th)
        (stix_B_coef S P (S + D) (S - D) th) (stix_C P (S + D) (S - D))))"

text \<open>
  The scalars as sums over the species, for comparison with the loop.
\<close>

definition S_sum :: "real \<Rightarrow> real list \<Rightarrow> real list \<Rightarrow> real" where
  "S_sum w wps wcs = 1 - (\<Sum>i<length wps. (wps ! i)\<^sup>2 / (w\<^sup>2 + (wcs ! i)\<^sup>2))"

definition P_sum :: "real \<Rightarrow> real list \<Rightarrow> real" where
  "P_sum w wps = 1 - (\<Sum>i<length wps. (wps ! i / w)\<^sup>2)"

definition D_sum :: "real \<Rightarrow> real list \<Rightarrow> real list \<Rightarrow> real" where
  "D_sum w wps wcs = (\<Sum>i<length wps. ((wps ! i)\<^sup>2 / (w\<^sup>2 + (wcs ! i)\<^sup>2)) * (wcs ! i / w))"

text \<open>
  The polynomial of the docstring (and of the dispersion relation) in the reduced
  variable \<open>x = c k / w\<close>, evaluated at a wavenumber \<open>k\<close>.
\<close>

definition reduced_residual :: "real \<Rightarrow> real \<Rightarrow> real \<Rightarrow> real \<Rightarrow> complex \<Rightarrow> complex" where
  "reduced_residual w Ai Bi Ci k =
     (let x = complex_of_real (c_si_unitless / w) * k
      in complex_of_real Ai * x ^ 4 + complex_of_real Bi * x\<^sup>2 + complex_of_real Ci)"

text \<open>The polynomial whose coefficients line 262 hands to \<open>numpy.roots\<close>, evaluated at \<open>k\<close>.\<close>

definition solved_residual :: "real \<Rightarrow> real \<Rightarrow> real \<Rightarrow> real \<Rightarrow> complex \<Rightarrow> complex" where
  "solved_residual w Ai Bi Ci k =
     complex_of_real (c_si_unitless / w * Ai) * k ^ 4
     + complex_of_real (c_si_unitless / w * Bi) * k\<^sup>2 + complex_of_real Ci"

section \<open>Example collaborators\<close>

text \<open>
  The textbook formulas for the two frequencies, in SI units, as one instance of
  the collaborators for the closed instances below.
\<close>

definition e_si :: real where
  "e_si = 1.602176634 / 10 ^ 19"

definition eps0 :: real where
  "eps0 = 8.8541878128 / 10 ^ 12"

definition plasma_frequency_si :: "real \<Rightarrow> particle \<Rightarrow> real" where
  "plasma_frequency_si n p =
     \<bar>real_of_int (charge_number p)\<bar> * e_si * sqrt (n / (eps0 * mass p))"

definition gyrofrequency_si :: "real \<Rightarrow> particle \<Rightarrow> real" where
  "gyrofrequency_si B p = \<bar>real_of_int (charge_number p)\<bar> * e_si * \<bar>B\<bar> / mass p"

text \<open>
  Example inputs: an alpha particle and a wave frequency with \<open>c / w = 625 / 49\<close>.
\<close>

definition alpha_particle :: particle where
  "alpha_particle = \<lparr>symbol = ''He-4 2+'', is_ion = True, charge_number = 2,
                      mass = 6.6446573357 / 10 ^ 27\<rparr>"

definition vacuum_w :: real where
  "vacuum_w = 49 * c_si_unitless / 625"

section \<open>The collisional timescales (\<open>timescales.py\<close>)\<close>

text \<open>
  The \<open>method\<close> argument is an arbitrary Python object; the second argument of
  \<open>isinstance\<close> is an object too, and must be a type.
\<close>

datatype pytype = Str_type | NoneType | Int_type | Float_type | Type_type

datatype pyobj = PyNone | PyStr string | PyInt int | PyFloat real | PyType pytype

fun type_of :: "pyobj \<Rightarrow> pytype" where
  "type_of PyNone = NoneType"
| "type_of (PyStr s) = Str_type"
| "type_of (PyInt i) = Int_type"
| "type_of (PyFloat x) = Float_type"
| "type_of (PyType t) = Type_type"

fun isinstance :: "pyobj \<Rightarrow> pyobj \<Rightarrow> error + bool" where
  "isinstance obj (PyType t) = Inr (type_of obj = t)"
| "isinstance obj classinfo = Inl (TypeError ''isinstance() arg 2 must be a type'')"

text \<open>Indexing a Quantity along its first axis; a scalar Quantity cannot be indexed.\<close>

definition getitem :: "ndarray \<Rightarrow> nat \<Rightarrow> error + ndarray" where
  "getitem a i =
     (case shape a of
        [] \<Rightarrow> Inl (TypeError ''scalar Quantity does not support indexing'')
      | n # rest \<Rightarrow>
          if i < n
          then Inr \<lparr>shape = rest,
                    data = take (prod_list rest) (drop (i * prod_list rest) (data a))\<rparr>
          else Inl (IndexError ''index out of bounds''))"

text \<open>Lines 29 to 54. The argument is a Quantity of floats, so the two type checks pass.\<close>

definition validate_n_i :: "ndarray \<Rightarrow> error + ndarray" where
  "validate_n_i n_i =
     (let n_i = squeeze n_i
      in if ndim n_i \<noteq> 0 then Inl (ValueError ''n_i'')
         else if \<not> item n_i > 0 then Inl (ValueError ''n_i'')
         else Inr n_i)"

text \<open>Lines 57 to 79.\<close>

definition validate_ions :: "ions_arg \<Rightarrow> error + particle list" where
  "validate_ions arg =
     (let ions = as_list arg
      in if \<not> list_all (\<lambda>ion. is_ion ion \<and> \<bar>charge_number ion\<bar> > 0) ions
         then Inl (ValueError ''ions'')
         else if length ions \<noteq> 2 then Inl (ValueError ''ions'')
         else Inr ions)"

text \<open>Lines 82 to 91, for a 1-D Quantity of speeds.\<close>

definition validate_speeds :: "real list \<Rightarrow> error + real list" where
  "validate_speeds speeds =
     (if length speeds \<noteq> 2 then Inl (ValueError ''speeds'') else Inr speeds)"

text \<open>
  Lines 93 to 116, behind the decorator. The value of a Quantity of floats is a
  float, so the type check passes.
\<close>

definition validate_temp :: "ndarray \<Rightarrow> error + ndarray" where
  "validate_temp T =
     and_then (validate_quantities [T]) (\<lambda>_.
       if shape T \<noteq> [] then Inl (ValueError ''T'')
       else if \<not> item T > 0 then Inl (ValueError ''T'')
       else Inr T)"

text \<open>
  Lines 118 to 127. The first test is \<open>isinstance(method, None)\<close>; a string that
  passes both tests reaches the end of the body, which returns \<open>None\<close>.
\<close>

definition validate_method :: "pyobj \<Rightarrow> error + pyobj" where
  "validate_method method =
     and_then (isinstance method PyNone) (\<lambda>is_none.
       if is_none then Inr (PyStr ''classical'')
       else and_then (isinstance method (PyType Str_type)) (\<lambda>is_str.
         if \<not> is_str then Inl (TypeError ''method'') else Inr PyNone))"

text \<open>An example collaborator: a Coulomb logarithm that is 10 for every argument.\<close>

definition constant_logarithm :: "ndarray \<Rightarrow> ndarray \<Rightarrow> particle list \<Rightarrow> pyobj \<Rightarrow> error + real" where
  "constant_logarithm T n_i ions method = Inr 10"

definition charge :: "particle \<Rightarrow> real" where
  "charge p = real_of_int (charge_number p) * e_si"

text \<open>
  Lines 316 to 336. \<open>Coulomb_logarithm\<close> is the collaborator of
  \<open>plasmapy.formulary.collisions.coulomb\<close>.
\<close>

definition Hellinger_2009 ::
  "(ndarray \<Rightarrow> ndarray \<Rightarrow> particle list \<Rightarrow> pyobj \<Rightarrow> error + real) \<Rightarrow>
   ndarray \<Rightarrow> ndarray \<Rightarrow> ions_arg \<Rightarrow> real list \<Rightarrow> pyobj \<Rightarrow> error + real" where
  "Hellinger_2009 Coulomb_logarithm T n_i ions par_speeds method =
     and_then (validate_temp T) (\<lambda>T.
     and_then (validate_n_i n_i) (\<lambda>n_i.
     and_then (validate_ions ions) (\<lambda>ions.
     and_then (validate_speeds par_speeds) (\<lambda>par_speeds.
     and_then (validate_method method) (\<lambda>method.
       let v_par = sqrt (((par_speeds ! 0)\<^sup>2 + (par_speeds ! 1)\<^sup>2) / 2);
           a = (charge (ions ! 0))\<^sup>2 * (charge (ions ! 1))\<^sup>2 * item n_i;
           b = (12 * (pi powr 1.5)) * (mass (ions ! 0) * mass (ions ! 1)) * eps0\<^sup>2 * v_par ^ 3
       in and_then (Coulomb_logarithm T n_i ions method) (\<lambda>c. Inr ((a / b) * c)))))))"

text \<open>
  A call of \<open>Hellinger_2009\<close> with four or with five positional arguments: the fifth
  parameter has no default, so the call without it raises TypeError.
\<close>

definition call_Hellinger_2009 ::
  "(ndarray \<Rightarrow> ndarray \<Rightarrow> particle list \<Rightarrow> pyobj \<Rightarrow> error + real) \<Rightarrow>
   ndarray \<Rightarrow> ndarray \<Rightarrow> ions_arg \<Rightarrow> real list \<Rightarrow> pyobj option \<Rightarrow> error + real" where
  "call_Hellinger_2009 Coulomb_logarithm T n_i ions par_speeds fifth =
     (case fifth of
        None \<Rightarrow> Inl (TypeError ''Hellinger_2009() missing 1 required positional argument'')
      | Some method \<Rightarrow> Hellinger_2009 Coulomb_logarithm T n_i ions par_speeds method)"

text \<open>Lines 467 to 483. \<open>gh\<close> is \<open>scipy.stats.gausshyper\<close>.\<close>

definition Hellinger_2010 ::
  "(ndarray \<Rightarrow> ndarray \<Rightarrow> particle list \<Rightarrow> pyobj \<Rightarrow> error + real) \<Rightarrow>
   (real \<Rightarrow> real \<Rightarrow> real \<Rightarrow> real \<Rightarrow> real) \<Rightarrow>
   ndarray \<Rightarrow> ndarray \<Rightarrow> ndarray \<Rightarrow> ions_arg \<Rightarrow> real list \<Rightarrow> pyobj \<Rightarrow> error + real" where
  "Hellinger_2010 Coulomb_logarithm gh T_par T_perp n_i ions par_speeds method =
     and_then (validate_temp T_par) (\<lambda>T_par.
     and_then (validate_temp T_perp) (\<lambda>T_perp.
     and_then (validate_n_i n_i) (\<lambda>n_i.
     and_then (validate_ions ions) (\<lambda>ions.
     and_then (validate_speeds par_speeds) (\<lambda>par_speeds.
       if item T_par = 0 then Inl (ValueError ''T_par'')
       else let T = scalar ((2 * item T_perp + item T_par) / 3)
            in and_then
                 (call_Hellinger_2009 Coulomb_logarithm T n_i (Many ions) par_speeds (Some method))
                 (\<lambda>tau. Inr (tau * 3 / 5 * gh 2 1.5 (7 / 2) (1 - item T_perp / item T_par))))))))"

text \<open>
  Lines 631 to 650, the body of \<open>Hellinger_2016\<close> after its validators: the operands
  are evaluated from left to right, so \<open>T_perp[1]\<close> is the first index taken, and
  the call of \<open>Hellinger_2009\<close> comes before the one of \<open>hyper2d\<close> (of \<open>mpmath\<close>).
\<close>

definition Hellinger_2016_body ::
  "(ndarray \<Rightarrow> ndarray \<Rightarrow> particle list \<Rightarrow> pyobj \<Rightarrow> error + real) \<Rightarrow>
   (real \<Rightarrow> real \<Rightarrow> real \<Rightarrow> real \<Rightarrow> real \<Rightarrow> real) \<Rightarrow>
   ndarray \<Rightarrow> ndarray \<Rightarrow> ndarray \<Rightarrow> particle list \<Rightarrow> real list \<Rightarrow> real list \<Rightarrow> pyobj \<Rightarrow>
   error + real" where
  "Hellinger_2016_body Coulomb_logarithm hyper2d T_par T_perp n_i ions par_speeds perp_speeds method =
     (if item T_par = 0 then Inl (ValueError ''T_par'')
      else let T = scalar ((2 * item T_perp + item T_par) / 3);
               vstpar = sqrt (((par_speeds ! 0)\<^sup>2 + (par_speeds ! 1)\<^sup>2) / 2)
           in and_then (getitem T_perp 1) (\<lambda>T_perp1.
              and_then (getitem T_perp 0) (\<lambda>T_perp0.
              and_then (getitem T_par 1) (\<lambda>T_par1.
              and_then (getitem T_par 0) (\<lambda>T_par0.
                let Ast = (mass (ions ! 0) * item T_perp1 + mass (ions ! 1) * item T_perp0)
                          / (mass (ions ! 0) * item T_par1 + mass (ions ! 1) * item T_par0);
                    vs = ((par_speeds ! 0)\<^sup>2 + 2 * (perp_speeds ! 0)\<^sup>2) / 3;
                    vt = ((par_speeds ! 1)\<^sup>2 + 2 * (perp_speeds ! 1)\<^sup>2) / 3;
                    vst = vs - vt
                in and_then
                     (call_Hellinger_2009 Coulomb_logarithm T n_i (Many ions) par_speeds None)
                     (\<lambda>tau. Inr (tau * hyper2d 1 1.5 2.5 (1 - Ast)
                                          (Ast * (vst\<^sup>2 / 4 * vstpar\<^sup>2)))))))))"

text \<open>Lines 622 to 650.\<close>

definition Hellinger_2016 ::
  "(ndarray \<Rightarrow> ndarray \<Rightarrow> particle list \<Rightarrow> pyobj \<Rightarrow> error + real) \<Rightarrow>
   (real \<Rightarrow> real \<Rightarrow> real \<Rightarrow> real \<Rightarrow> real \<Rightarrow> real) \<Rightarrow>
   ndarray \<Rightarrow> ndarray \<Rightarrow> ndarray \<Rightarrow> ions_arg \<Rightarrow> real list \<Rightarrow> real list \<Rightarrow> pyobj \<Rightarrow>
   error + real" where
  "Hellinger_2016 Coulomb_logarithm hyper2d T_par T_perp n_i ions par_speeds perp_speeds method =
     and_then (validate_temp T_par) (\<lambda>T_par.
     and_then (validate_temp T_perp) (\<lambda>T_perp.
     and_then (validate_n_i n_i) (\<lambda>n_i.
     and_then (validate_ions ions) (\<lambda>ions.
     and_then (validate_speeds par_speeds) (\<lambda>par_speeds.
     and_then (validate_speeds perp_speeds) (\<lambda>perp_speeds.
     and_then (validate_method method) (\<lambda>method.
       Hellinger_2016_body Coulomb_logarithm hyper2d T_par T_perp n_i ions
         par_speeds perp_speeds method)))))))"

section \<open>Sequencing\<close>

lemma and_then_isl_left: "isl m \<Longrightarrow> isl (and_then m f)"
  by (cases m) (auto simp: and_then_def)

lemma and_then_isl: "(\<And>x. isl (f x)) \<Longrightarrow> isl (and_then m f)"
  by (cases m) (auto simp: and_then_def)

section \<open>The roots that \<open>numpy.roots\<close> returns for \<open>[a, 0, b, 0, c]\<close>\<close>

lemma non_zero_5:
  "filter (\<lambda>i. [a, 0, b, 0, c] ! i \<noteq> (0::complex)) [0..<length [a, 0, b, 0, c]] =
     (if a \<noteq> 0 then [0] else []) @ (if b \<noteq> 0 then [2] else []) @ (if c \<noteq> 0 then [4] else [])"
  by (simp add: upt_rec)

lemma np_roots_leading:
  assumes "a \<noteq> 0"
  shows "np_roots [a, 0, b, 0, c] =
     (if c \<noteq> 0 then companion_eigvals [a, 0, b, 0, c]
      else if b \<noteq> 0 then companion_eigvals [a, 0, b] @ [0, 0]
      else [0, 0, 0, 0])"
  using assms unfolding np_roots_def non_zero_5 Let_def
  by (simp add: numeral_eq_Suc)

lemma np_roots_degenerate:
  "np_roots [0, 0, b, 0, c] =
     (if b \<noteq> 0 \<and> c \<noteq> 0 then companion_eigvals [b, 0, c]
      else if b \<noteq> 0 then [0, 0]
      else [])"
  unfolding np_roots_def non_zero_5 Let_def
  by (simp add: numeral_eq_Suc)

lemma length_np_roots_leading: "a \<noteq> 0 \<Longrightarrow> length (np_roots [a, 0, b, 0, c]) = 4"
  by (simp add: np_roots_leading Let_def)

lemma length_np_roots_degenerate: "length (np_roots [0, 0, b, 0, c]) \<le> 2"
  by (simp add: np_roots_degenerate Let_def)

lemma length_np_sort [simp]: "length (np_sort zs) = length zs"
  by (simp add: np_sort_def)

lemma set_np_sort [simp]: "set (np_sort zs) = set zs"
  by (simp add: np_sort_def)

lemma quadratic_root:
  fixes a b c d y :: complex
  assumes "a \<noteq> 0" "d\<^sup>2 = b\<^sup>2 - 4 * a * c" "y = (- b + d) / (2 * a) \<or> y = (- b - d) / (2 * a)"
  shows "a * y\<^sup>2 + b * y + c = 0"
proof -
  have "4 * a * (a * y\<^sup>2 + b * y + c) = (2 * a * y + b)\<^sup>2 - (b\<^sup>2 - 4 * a * c)"
    by (simp add: power2_eq_square algebra_simps)
  also have "(2 * a * y + b)\<^sup>2 = d\<^sup>2"
  proof -
    from assms(1,3) have "2 * a * y = - b + d \<or> 2 * a * y = - b - d"
      by auto
    then have "2 * a * y + b = d \<or> 2 * a * y + b = - d"
      by (elim disjE) simp_all
    then show ?thesis by auto
  qed
  finally have "4 * a * (a * y\<^sup>2 + b * y + c) = 0" using assms(2) by simp
  with assms(1) show ?thesis by simp
qed

lemma biquadratic_eigvals_root:
  assumes "a \<noteq> 0" "r \<in> set (companion_eigvals [a, 0, b, 0, c])"
  shows "a * r ^ 4 + b * r\<^sup>2 + c = 0"
proof -
  define d where "d = csqrt (b\<^sup>2 - 4 * a * c)"
  have d: "d\<^sup>2 = b\<^sup>2 - 4 * a * c" by (simp add: d_def)
  from assms(2) have "r\<^sup>2 = (- b + d) / (2 * a) \<or> r\<^sup>2 = (- b - d) / (2 * a)"
    by (auto simp: Let_def d_def)
  from quadratic_root[OF assms(1) d this] have "a * (r\<^sup>2)\<^sup>2 + b * r\<^sup>2 + c = 0" .
  moreover have "(r\<^sup>2)\<^sup>2 = r ^ 4" by (simp flip: power_mult)
  ultimately show ?thesis by simp
qed

lemma quadratic_eigvals_root:
  assumes "a \<noteq> 0" "r \<in> set (companion_eigvals [a, 0, b])"
  shows "a * r\<^sup>2 + b = 0"
proof -
  define d where "d = csqrt (0\<^sup>2 - 4 * a * b)"
  have d: "d\<^sup>2 = 0\<^sup>2 - 4 * a * b" unfolding d_def by (rule power2_csqrt)
  from assms(2) have "r = (- 0 + d) / (2 * a) \<or> r = (- 0 - d) / (2 * a)"
    by (auto simp: Let_def d_def)
  from quadratic_root[OF assms(1) d this] show ?thesis by simp
qed

text \<open>Every root returned is a zero of the polynomial, also in the degenerate cases.\<close>

lemma np_roots_root:
  assumes "r \<in> set (np_roots [a, 0, b, 0, c])"
  shows "a * r ^ 4 + b * r\<^sup>2 + c = 0"
proof (cases "a = 0")
  case False
  show ?thesis
  proof (cases "c = 0")
    case c: True
    show ?thesis
    proof (cases "b = 0")
      case True
      with c False assms show ?thesis by (simp add: np_roots_leading)
    next
      case b: False
      from assms False c b have "r \<in> set (companion_eigvals [a, 0, b]) \<or> r = 0"
        by (auto simp: np_roots_leading simp del: companion_eigvals.simps)
      then show ?thesis
      proof
        assume "r \<in> set (companion_eigvals [a, 0, b])"
        from quadratic_eigvals_root[OF False this] have "a * r\<^sup>2 + b = 0" .
        then have "r\<^sup>2 * (a * r\<^sup>2 + b) = 0" by simp
        with c show ?thesis by (simp add: power2_eq_square power4_eq_xxxx algebra_simps)
      next
        assume "r = 0" with c show ?thesis by simp
      qed
    qed
  next
    case c: False
    with assms False have "r \<in> set (companion_eigvals [a, 0, b, 0, c])"
      by (simp add: np_roots_leading del: companion_eigvals.simps)
    from biquadratic_eigvals_root[OF False this] show ?thesis .
  qed
next
  case True
  show ?thesis
  proof (cases "b \<noteq> 0 \<and> c \<noteq> 0")
    case bc: True
    with assms True have "r \<in> set (companion_eigvals [b, 0, c])"
      by (simp add: np_roots_degenerate del: companion_eigvals.simps)
    from quadratic_eigvals_root[OF _ this] bc True show ?thesis by simp
  next
    case False
    with assms True show ?thesis
      by (auto simp: np_roots_degenerate split: if_splits)
  qed
qed

text \<open>
  With a leading coefficient that is not 0, the list holds all four roots with
  their multiplicities: the polynomial is the product of its linear factors.
\<close>

lemma np_roots_factorisation:
  assumes "a \<noteq> 0"
  shows "a * x ^ 4 + b * x\<^sup>2 + c = a * prod_list (map (\<lambda>r. x - r) (np_roots [a, 0, b, 0, c]))"
proof -
  have two: "(x - s) * (x - (- s)) = x\<^sup>2 - s\<^sup>2" for s :: complex
    by (simp add: power2_eq_square algebra_simps)
  have quad: "a * (Y - (- q + d) / (2 * a)) * (Y - (- q - d) / (2 * a)) = a * Y\<^sup>2 + q * Y + p"
    if "d\<^sup>2 = q\<^sup>2 - 4 * a * p" for Y q d p :: complex
  proof -
    have "4 * a * (a * (Y - (- q + d) / (2 * a)) * (Y - (- q - d) / (2 * a)))
          = (2 * a * Y + q - d) * (2 * a * Y + q + d)"
      using assms by (simp add: field_simps)
    also have "\<dots> = (2 * a * Y + q)\<^sup>2 - d\<^sup>2"
      by (simp add: power2_eq_square algebra_simps)
    also have "\<dots> = 4 * a * (a * Y\<^sup>2 + q * Y + p)"
      unfolding that by (simp add: power2_eq_square algebra_simps)
    finally show ?thesis using assms by simp
  qed
  show ?thesis
  proof (cases "c = 0")
    case c: False
    define d where "d = csqrt (b\<^sup>2 - 4 * a * c)"
    have d: "d\<^sup>2 = b\<^sup>2 - 4 * a * c" by (simp add: d_def)
    have "a * prod_list (map (\<lambda>r. x - r) (np_roots [a, 0, b, 0, c]))
        = a * (((x - csqrt ((- b + d) / (2 * a))) * (x - (- csqrt ((- b + d) / (2 * a)))))
            * ((x - csqrt ((- b - d) / (2 * a))) * (x - (- csqrt ((- b - d) / (2 * a))))))"
      using assms c by (simp add: np_roots_leading Let_def d_def mult.assoc)
    also have "\<dots> = a * (x\<^sup>2 - (- b + d) / (2 * a)) * (x\<^sup>2 - (- b - d) / (2 * a))"
      unfolding two by (simp add: mult.assoc)
    also have "\<dots> = a * (x\<^sup>2)\<^sup>2 + b * x\<^sup>2 + c"
      by (rule quad[OF d])
    finally show ?thesis by (simp add: power2_eq_square power4_eq_xxxx)
  next
    case c: True
    show ?thesis
    proof (cases "b = 0")
      case True
      with c assms show ?thesis by (simp add: np_roots_leading power4_eq_xxxx)
    next
      case b: False
      define d where "d = csqrt (0\<^sup>2 - 4 * a * b)"
      have d: "d\<^sup>2 = 0\<^sup>2 - 4 * a * b" unfolding d_def by (rule power2_csqrt)
      have "a * prod_list (map (\<lambda>r. x - r) (np_roots [a, 0, b, 0, c]))
          = (a * (x - (- 0 + d) / (2 * a)) * (x - (- 0 - d) / (2 * a))) * x\<^sup>2"
        using assms c b by (simp add: np_roots_leading Let_def d_def power2_eq_square)
      also have "\<dots> = (a * x\<^sup>2 + 0 * x + b) * x\<^sup>2"
        by (simp only: quad[OF d])
      finally show ?thesis using c by (simp add: power2_eq_square power4_eq_xxxx algebra_simps)
    qed
  qed
qed

section \<open>The arguments of \<open>stix\<close>\<close>

lemma stix_ions_positive:
  assumes "stix_ions arg = Inr ions"
  shows "ions = as_list arg \<and> (\<forall>ion\<in>set ions. is_ion ion \<and> charge_number ion > 0)"
  using assms by (auto simp: stix_ions_def Let_def list_all_iff split: if_splits)

lemma stix_ions_error:
  assumes "\<exists>ion\<in>set (as_list arg). \<not> (is_ion ion \<and> charge_number ion > 0)"
  shows "stix_ions arg = Inl (ValueError ''ions'')"
  using assms by (auto simp: stix_ions_def Let_def list_all_iff)

lemma stix_n_i_scalar: "stix_n_i ions (scalar n) = Inr (replicate (length ions) n)"
  by (simp add: stix_n_i_def scalar_def ndim_def item_def)

lemma stix_n_i_array1:
  "stix_n_i ions (array1 (replicate (length ions) n)) = Inr (replicate (length ions) n)"
  by (cases "length ions = 1")
     (simp_all add: stix_n_i_def array1_def ndim_def size_nd_def np_repeat_def)

lemma stix_n_i_shape_error:
  assumes "ndim n_i \<notin> {0, 1} \<or> (ndim n_i = 1 \<and> size_nd n_i \<noteq> length ions)"
  shows "stix_n_i ions n_i = Inl (ValueError ''n_i'')"
  using assms by (auto simp: stix_n_i_def)

lemma length_stix_n_i:
  assumes "stix_n_i ions n_i = Inr ns" "well_formed n_i"
  shows "length ns = length ions"
proof (cases "ndim n_i = 0")
  case True
  with assms show ?thesis by (auto simp: stix_n_i_def)
next
  case False
  with assms(1) have 1: "ndim n_i = 1" and 2: "size_nd n_i = length ions"
    by (auto simp: stix_n_i_def split: if_splits)
  from assms(2) 2 have len: "length (data n_i) = length ions"
    by (simp add: well_formed_def size_nd_def)
  show ?thesis
  proof (cases "size_nd n_i = 1")
    case True
    with len 2 have "length (data n_i) = Suc 0" by simp
    then obtain x where "data n_i = [x]"
      by (auto simp: length_Suc_conv)
    with assms(1) False 1 2 True show ?thesis
      by (auto simp: stix_n_i_def np_repeat_def)
  next
    case False
    with assms(1) 1 2 len show ?thesis
      by (auto simp: stix_n_i_def)
  qed
qed

lemma stix_densities_eq:
  "stix_densities ions ns =
     ns @ [sum_list (map2 (\<lambda>n z. n * real_of_int z) ns (map charge_number ions))]"
proof -
  have "drop (length ns) (replicate (length ns + 1) (0::real)) = [0]"
    by (simp only: drop_replicate) simp
  then show ?thesis
    by (simp add: stix_densities_def Let_def del: replicate_Suc)
qed

lemma sum_list_upt: "sum_list (map f [0..<n]) = (\<Sum>i<n. f i)" for f :: "nat \<Rightarrow> real"
  by (simp add: interv_sum_list_conv_sum_set_nat atLeast0LessThan)

lemma sum_list_map2_nth:
  assumes "length ns = length ions"
  shows "sum_list (map2 (\<lambda>n z. n * real_of_int z) ns (map charge_number ions))
       = (\<Sum>i<length ions. ns ! i * real_of_int (charge_number (ions ! i)))"
proof -
  have "sum_list (map2 (\<lambda>n z. n * real_of_int z) ns (map charge_number ions))
      = sum_list (map (\<lambda>i. ns ! i * real_of_int (charge_number (ions ! i))) [0..<length ions])"
    using assms by (intro arg_cong[where f = sum_list] nth_equalityI) simp_all
  then show ?thesis by (simp add: sum_list_upt)
qed

lemma squeeze_scalar_data:
  assumes "well_formed a" "ndim (squeeze a) = 0"
  shows "\<exists>x. data a = [x]"
proof -
  have "filter (\<lambda>d. d \<noteq> 1) sh = [] \<Longrightarrow> prod_list sh = 1" for sh :: "nat list"
    by (induction sh) (auto split: if_splits)
  with assms have "length (data a) = 1"
    by (simp add: well_formed_def squeeze_def ndim_def)
  then show ?thesis by (cases "data a") auto
qed

lemma stix_w_positive:
  assumes "stix_w w = Inr w1" "ndim w1 = 0" "well_formed w"
  shows "0 < item w1"
proof -
  from assms(1) have w1: "w1 = squeeze w" and pos: "\<not> list_ex (\<lambda>x. x \<le> 0) (data w)"
    by (auto simp: stix_w_def Let_def squeeze_def split: if_splits)
  from squeeze_scalar_data[OF assms(3)] assms(2) w1 obtain x where "data w = [x]" by auto
  with pos w1 show ?thesis by (simp add: item_def squeeze_def)
qed

lemma stix_theta_negative:
  assumes "stix_theta theta = Inr ths" "well_formed theta"
  shows "stix_theta (negative theta) = Inr (map uminus ths)"
proof (cases "ndim (squeeze theta) = 0")
  case True
  from squeeze_scalar_data[OF assms(2) True] obtain x where "data theta = [x]" ..
  with assms True show ?thesis
    by (auto simp: stix_theta_def negative_def squeeze_def ndim_def item_def Let_def)
next
  case False
  with assms show ?thesis
    by (auto simp: stix_theta_def negative_def squeeze_def ndim_def item_def Let_def split: if_splits)
qed

section \<open>The result of \<open>stix\<close>\<close>

lemma stix_SPD_loop_sums:
  "stix_SPD_loop w wps wcs js (S, P, D) =
     (S - sum_list (map (\<lambda>i. (wps ! i)\<^sup>2 / (w\<^sup>2 + (wcs ! i)\<^sup>2)) js),
      P - sum_list (map (\<lambda>i. (wps ! i / w)\<^sup>2) js),
      D + sum_list (map (\<lambda>i. ((wps ! i)\<^sup>2 / (w\<^sup>2 + (wcs ! i)\<^sup>2)) * (wcs ! i / w)) js))"
  by (induction js arbitrary: S P D) (simp_all add: algebra_simps)

lemma stix_SPD_sums: "stix_SPD w wps wcs = (S_sum w wps wcs, P_sum w wps, D_sum w wps wcs)"
  by (simp add: stix_SPD_def stix_SPD_loop_sums sum_list_upt S_sum_def P_sum_def D_sum_def)

lemma stix_solve_lookup:
  assumes "\<forall>i\<in>set js. A ! i = fA (theta ! i) \<and> B ! i = fB (theta ! i) \<and> C ! i = fC (theta ! i)"
  shows "stix_solve w theta A B C js k =
     (\<lambda>th. if th \<in> (\<lambda>i. theta ! i) ` set js
            then Some (np_sort (np_roots (stix_coefficients w (fA th) (fB th) (fC th))))
            else k th)"
  using assms
proof (induction js arbitrary: k)
  case Nil
  then show ?case by simp
next
  case (Cons j js)
  then show ?case by (auto simp: fun_eq_iff)
qed

text \<open>The dictionary holds, for each angle supplied, what the loop stores for it.\<close>

lemma stix_core_lookup:
  assumes "stix_SPD w wps wcs = (S, P, D)"
  shows "stix_core w wps wcs theta =
     (\<lambda>th. if th \<in> set theta then Some (stix_roots_at w S P D th) else None)"
proof -
  have img: "(!) theta ` {0..<length theta} = set theta"
    by (auto simp: in_set_conv_nth)
  show ?thesis
    unfolding stix_core_def assms Let_def prod.case stix_roots_at_def
    by (subst stix_solve_lookup[where fA = "stix_A S P"
          and fB = "stix_B_coef S P (S + D) (S - D)" and fC = "\<lambda>_. stix_C P (S + D) (S - D)"])
       (simp_all add: img)
qed

lemma stix_Inr:
  assumes "validate_quantities [B, w, n_i] = Inr ()"
    "stix_ions arg = Inr ions" "stix_n_i ions n_i = Inr ns" "stix_B B = Inr B0"
    "stix_w w = Inr w1" "ndim w1 = 0" "stix_theta theta = Inr ths"
  shows "stix pf gf B w arg n_i theta =
     Inr (stix_core (item w1) (stix_wps pf (stix_species ions) (stix_densities ions ns))
            (stix_wcs gf B0 (stix_species ions) (stix_densities ions ns)) ths)"
  using assms by (simp add: stix_def and_then_def Let_def)

lemma stix_InrD:
  assumes "stix pf gf B w arg n_i theta = Inr k"
  shows "\<exists>ions ns B0 w1 ths. validate_quantities [B, w, n_i] = Inr () \<and>
     stix_ions arg = Inr ions \<and> stix_n_i ions n_i = Inr ns \<and>
     stix_B B = Inr B0 \<and> stix_w w = Inr w1 \<and> ndim w1 = 0 \<and> stix_theta theta = Inr ths \<and>
     k = stix_core (item w1) (stix_wps pf (stix_species ions) (stix_densities ions ns))
            (stix_wcs gf B0 (stix_species ions) (stix_densities ions ns)) ths"
  using assms
  by (auto simp: stix_def and_then_def Let_def split: sum.splits if_splits)

lemma stix_A_neg: "stix_A S P (- th) = stix_A S P th"
  by (simp add: stix_A_def)

lemma stix_B_coef_neg: "stix_B_coef S P R L (- th) = stix_B_coef S P R L th"
  by (simp add: stix_B_coef_def)

lemma stix_roots_at_neg: "stix_roots_at w S P D (- th) = stix_roots_at w S P D th"
  by (simp add: stix_roots_at_def stix_A_neg stix_B_coef_neg)

text \<open>
  For every input, each root stored is a zero of the polynomial with the
  coefficients \<open>(c / w) A\<close>, \<open>(c / w) B\<close> and \<open>C\<close>.
\<close>

lemma stix_roots_at_solved:
  assumes "r \<in> set (stix_roots_at w S P D th)"
  shows "solved_residual w (stix_A S P th) (stix_B_coef S P (S + D) (S - D) th)
           (stix_C P (S + D) (S - D)) r = 0"
  using np_roots_root[of r "complex_of_real (c_si_unitless / w * stix_A S P th)"
      "complex_of_real (c_si_unitless / w * stix_B_coef S P (S + D) (S - D) th)"
      "complex_of_real (stix_C P (S + D) (S - D))"] assms
  by (simp add: stix_roots_at_def stix_coefficients_def solved_residual_def Let_def)

lemma stix_density_shape_error:
  assumes "validate_quantities [B, w, n_i] = Inr ()" and "stix_ions arg = Inr ions"
    and "ndim n_i \<notin> {0, 1} \<or> (ndim n_i = 1 \<and> size_nd n_i \<noteq> length ions)"
  shows "stix pf gf B w arg n_i theta = Inl (ValueError ''n_i'')"
  using assms(1,2) stix_n_i_shape_error[OF assms(3)]
  by (simp add: stix_def and_then_def)

lemma stix_theta_raises:
  assumes "validate_quantities [B, w, n_i] = Inr ()"
    "stix_ions arg = Inr ions" "stix_n_i ions n_i = Inr ns" "stix_B B = Inr B0"
    "stix_w w = Inr w1" "1 < ndim (squeeze theta)"
  shows "stix pf gf B w arg n_i theta = Inl (UnboundLocalError ''k'')"
proof -
  from assms(6) have "stix_theta theta = Inl (UnboundLocalError ''k'')"
    by (simp add: stix_theta_def Let_def)
  with assms(1-5) show ?thesis by (simp add: stix_def and_then_def)
qed

lemma validate_quantities_scalars:
  "0 \<le> x \<Longrightarrow> 0 \<le> y \<Longrightarrow> 0 \<le> z \<Longrightarrow>
   validate_quantities [scalar x, scalar y, scalar z] = Inr ()"
  by (simp add: validate_quantities_def has_negative_def scalar_def)

section \<open>\<open>stix\<close> at the example inputs\<close>

lemma vacuum_decorator: "validate_quantities [scalar 1, scalar vacuum_w, scalar 0] = Inr ()"
  by (rule validate_quantities_scalars) (simp_all add: vacuum_w_def c_si_unitless_def)

lemma vacuum_stages:
  "stix_ions (One proton) = Inr [proton]"
  "stix_n_i [proton] (scalar 0) = Inr [0]"
  "stix_B (scalar 1) = Inr 1"
  "stix_w (scalar vacuum_w) = Inr (scalar vacuum_w)"
  "ndim (scalar vacuum_w) = 0"
  "stix_theta (scalar th) = Inr [th]"
  "item (scalar vacuum_w) = vacuum_w"
  by (simp_all add: stix_ions_def as_list_def proton_def stix_n_i_def scalar_def ndim_def item_def
      stix_B_def squeeze_def stix_w_def vacuum_w_def c_si_unitless_def stix_theta_def)

lemma vacuum_wps:
  "stix_wps plasma_frequency_si (stix_species [proton]) (stix_densities [proton] [0]) = [0, 0]"
  by (simp add: stix_wps_def stix_species_def stix_densities_def plasma_frequency_si_def)

lemma vacuum_SPD: "stix_SPD w [0, 0] wcs = (1, 1, 0)"
  by (simp add: stix_SPD_def upt_rec)

lemma csqrt_example1: "csqrt (1440000 / 2401) = 1200 / 49"
  by (rule csqrt_unique) (simp_all add: power2_eq_square)

lemma csqrt_example2: "csqrt (49 / 25) = 7 / 5"
  by (rule csqrt_unique) (simp_all add: power2_eq_square)

lemma csqrt_example3: "csqrt (1 / 25) = 1 / 5"
  by (rule csqrt_unique) (simp_all add: power2_eq_square)

lemma vacuum_coefficients:
  "stix_coefficients vacuum_w (stix_A 1 1 th) (stix_B_coef 1 1 (1 + 0) (1 - 0) th)
     (stix_C 1 (1 + 0) (1 - 0)) = [625 / 49, 0, - (1250 / 49), 0, 1]"
proof -
  have A: "stix_A 1 1 th = 1" by (simp add: stix_A_def)
  have "(sin th)\<^sup>2 + (1 + (cos th)\<^sup>2) = 2"
    using sin_cos_squared_add[of th] by linarith
  moreover have "stix_B_coef 1 1 (1 + 0) (1 - 0) th = - ((sin th)\<^sup>2 + (1 + (cos th)\<^sup>2))"
    by (simp add: stix_B_coef_def)
  ultimately have B: "stix_B_coef 1 1 (1 + 0) (1 - 0) th = - 2"
    by (simp only:)
  show ?thesis
    unfolding A B
    by (simp add: stix_coefficients_def vacuum_w_def c_si_unitless_def stix_C_def)
qed

lemma vacuum_np_roots:
  "np_roots [625 / 49, 0, - (1250 / 49), 0, 1] = [7 / 5, - (7 / 5), 1 / 5, - (1 / 5)]"
proof -
  have d: "(1250 / 49 :: complex)\<^sup>2 - 2500 / 49 = 1440000 / 2401"
    by (simp add: power2_eq_square)
  show ?thesis
    by (simp add: np_roots_leading Let_def d csqrt_example1 csqrt_example2 csqrt_example3)
qed

lemma vacuum_np_sort:
  "np_sort [7 / 5, - (7 / 5), 1 / 5, - (1 / 5)] = [- (7 / 5), - (1 / 5), 1 / 5, 7 / 5]"
  by (simp add: np_sort_def less_eq_prod_def)

lemma vacuum_roots_at: "stix_roots_at vacuum_w 1 1 0 th = [- (7 / 5), - (1 / 5), 1 / 5, 7 / 5]"
  by (simp only: stix_roots_at_def vacuum_coefficients vacuum_np_roots vacuum_np_sort)

lemma vacuum_stix:
  "stix plasma_frequency_si gf (scalar 1) (scalar vacuum_w) (One proton) (scalar 0) (scalar th)
   = Inr [th \<mapsto> [- (7 / 5), - (1 / 5), 1 / 5, 7 / 5]]"
  unfolding stix_Inr[OF vacuum_decorator vacuum_stages(1-6)] vacuum_stages(7) vacuum_wps stix_core_lookup[OF vacuum_SPD]
  by (auto simp: fun_eq_iff vacuum_roots_at)

lemma vacuum_residuals:
  "list_all (\<lambda>k. solved_residual vacuum_w (stix_A 1 1 0) (stix_B_coef 1 1 1 1 0) (stix_C 1 1 1) k = 0
       \<and> reduced_residual vacuum_w (stix_A 1 1 0) (stix_B_coef 1 1 1 1 0) (stix_C 1 1 1) k \<noteq> 0)
     [- (7 / 5), - (1 / 5), 1 / 5, 7 / 5]"
  by (simp add: solved_residual_def reduced_residual_def vacuum_w_def c_si_unitless_def
      stix_A_def stix_B_coef_def stix_C_def Let_def power2_eq_square power4_eq_xxxx)

section \<open>The validators of the timescales\<close>

lemma validate_method_raises:
  "validate_method method = Inl (TypeError ''isinstance() arg 2 must be a type'')"
  by (simp add: validate_method_def and_then_def)

lemma validate_ions_error:
  assumes "(\<exists>ion\<in>set (as_list arg). \<not> (is_ion ion \<and> \<bar>charge_number ion\<bar> > 0))
           \<or> length (as_list arg) \<noteq> 2"
  shows "validate_ions arg = Inl (ValueError ''ions'')"
  using assms by (auto simp: validate_ions_def Let_def list_all_iff)

lemma validate_temp_shape:
  "validate_temp T = Inr T' \<Longrightarrow> T' = T \<and> shape T = [] \<and> item T > 0"
  by (auto simp: validate_temp_def and_then_def split: if_splits sum.splits)

lemma validate_temp_scalar: "0 < x \<Longrightarrow> validate_temp (scalar x) = Inr (scalar x)"
  by (simp add: validate_temp_def and_then_def validate_quantities_def has_negative_def
      scalar_def item_def)

lemma getitem_scalar: "shape a = [] \<Longrightarrow> isl (getitem a i)"
  by (simp add: getitem_def)

lemma Hellinger_2009_never_returns:
  "isl (Hellinger_2009 Coulomb_logarithm T n_i ions par_speeds method)"
  unfolding Hellinger_2009_def
  by (intro and_then_isl and_then_isl_left) (simp add: validate_method_raises)

lemma Hellinger_2016_body_raises:
  "isl (Hellinger_2016_body Coulomb_logarithm hyper2d T_par T_perp n_i ions par_speeds
          perp_speeds method)"
proof -
  have "isl (call_Hellinger_2009 Coulomb_logarithm T n_i' ions' par_speeds None)" for T n_i' ions'
    by (simp add: call_Hellinger_2009_def)
  then show ?thesis
    unfolding Hellinger_2016_body_def Let_def
    by (simp add: and_then_isl and_then_isl_left)
qed

lemma Hellinger_2016_raises:
  "isl (Hellinger_2016 Coulomb_logarithm hyper2d T_par T_perp n_i ions par_speeds perp_speeds method)"
  unfolding Hellinger_2016_def
  by (intro and_then_isl Hellinger_2016_body_raises)

lemma validate_method_every_argument:
  "validate_method meth = Inl (TypeError ''isinstance() arg 2 must be a type'')
   \<and> isl (Hellinger_2009 Coulomb_logarithm T n_i ions par_speeds meth)"
  using Hellinger_2009_never_returns[of Coulomb_logarithm T n_i ions par_speeds meth]
  by (simp add: validate_method_raises)

text \<open>
  When the arguments pass, the keys of the dictionary are the angles supplied, and
  each holds what the loop stores for it.
\<close>

lemma stix_keys:
  assumes "validate_quantities [B, w, n_i] = Inr ()"
    and "stix_ions arg = Inr ions" and "stix_n_i ions n_i = Inr ns" and "stix_B B = Inr B0"
    and "stix_w w = Inr w1" and "ndim w1 = 0" and "stix_theta theta = Inr ths"
    and "stix_SPD (item w1) (stix_wps pf (stix_species ions) (stix_densities ions ns))
           (stix_wcs gf B0 (stix_species ions) (stix_densities ions ns)) = (S, P, D)"
  shows "\<exists>k. stix pf gf B w arg n_i theta = Inr k \<and> dom k = set ths \<and>
     (\<forall>th\<in>set ths. k th = Some (stix_roots_at (item w1) S P D th))"
proof -
  let ?k = "stix_core (item w1) (stix_wps pf (stix_species ions) (stix_densities ions ns))
           (stix_wcs gf B0 (stix_species ions) (stix_densities ions ns)) ths"
  have k: "?k = (\<lambda>th. if th \<in> set ths then Some (stix_roots_at (item w1) S P D th) else None)"
    by (rule stix_core_lookup[OF assms(8)])
  have "stix pf gf B w arg n_i theta = Inr ?k"
    by (rule stix_Inr[OF assms(1-7)])
  moreover have "dom ?k = set ths"
    unfolding k by (auto simp: dom_def)
  moreover have "\<forall>th\<in>set ths. ?k th = Some (stix_roots_at (item w1) S P D th)"
    unfolding k by simp
  ultimately show ?thesis by blast
qed

section \<open>The claims\<close>

text \<open>
  C1: for each angle the solver would solve \<open>A x\<^sup>4 + B x\<^sup>2 + C\<close> in \<open>x = c k / w\<close> and
  return the roots as wavenumbers \<open>k\<close>, so that each returned \<open>k\<close>, reduced again, is a
  zero of that polynomial. The code hands \<open>numpy.roots\<close> the coefficients \<open>(c / w) A\<close>,
  \<open>0\<close>, \<open>(c / w) B\<close>, \<open>0\<close>, \<open>C\<close> and stores the sorted roots as they are. For a
  proton plasma of density 0 in a field of 1 T, at \<open>w = 49 c / 625\<close> and angle 0, the
  scalars are \<open>S = P = 1\<close> and \<open>D = 0\<close>, the stored roots are \<open>\<plusminus> 7/5\<close> and
  \<open>\<plusminus> 1/5\<close>, each is a zero of the polynomial that was solved, and none is a zero of
  \<open>A x\<^sup>4 + B x\<^sup>2 + C\<close> at \<open>x = c k / w\<close>.
\<close>

theorem stix_vacuum_roots_residual:
  "stix plasma_frequency_si gyrofrequency_si (scalar 1) (scalar vacuum_w) (One proton) (scalar 0)
     (scalar 0) = Inr [0 \<mapsto> [- (7 / 5), - (1 / 5), 1 / 5, 7 / 5]]
   \<and> stix_SPD vacuum_w
       (stix_wps plasma_frequency_si (stix_species [proton]) (stix_densities [proton] [0]))
       (stix_wcs gyrofrequency_si 1 (stix_species [proton]) (stix_densities [proton] [0]))
     = (1, 1, 0)
   \<and> list_all (\<lambda>k. solved_residual vacuum_w (stix_A 1 1 0) (stix_B_coef 1 1 1 1 0) (stix_C 1 1 1) k = 0
         \<and> reduced_residual vacuum_w (stix_A 1 1 0) (stix_B_coef 1 1 1 1 0) (stix_C 1 1 1) k \<noteq> 0)
       [- (7 / 5), - (1 / 5), 1 / 5, 7 / 5]"
proof -
  have "stix_SPD vacuum_w
       (stix_wps plasma_frequency_si (stix_species [proton]) (stix_densities [proton] [0]))
       (stix_wcs gyrofrequency_si 1 (stix_species [proton]) (stix_densities [proton] [0]))
     = (1, 1, 0)"
    by (simp only: vacuum_wps vacuum_SPD)
  with vacuum_stix[of gyrofrequency_si 0] vacuum_residuals show ?thesis
    by (simp only: simp_thms)
qed

text \<open>
  C2: the loop over the species computes \<open>S = 1 - \<Sum> wp\<^sup>2 / (w\<^sup>2 + wc\<^sup>2)\<close>,
  \<open>P = 1 - \<Sum> (wp / w)\<^sup>2\<close> and \<open>D = \<Sum> (wp\<^sup>2 / (w\<^sup>2 + wc\<^sup>2)) (wc / w)\<close>, and the
  coefficients are built from these with \<open>R = S + D\<close> and \<open>L = S - D\<close>.
\<close>

theorem stix_scalars_are_sums:
  "stix_SPD w wps wcs = (S_sum w wps wcs, P_sum w wps, D_sum w wps wcs)
   \<and> stix_core w wps wcs theta =
       (let S = S_sum w wps wcs; P = P_sum w wps; D = D_sum w wps wcs; R = S + D; L = S - D
        in stix_solve w theta (map (\<lambda>i. stix_A S P (theta ! i)) [0..<length theta])
             (map (\<lambda>i. stix_B_coef S P R L (theta ! i)) [0..<length theta])
             (map (\<lambda>i. stix_C P R L) [0..<length theta]) [0..<length theta] Map.empty)"
  by (simp add: stix_core_def stix_SPD_sums Let_def)

text \<open>
  C3: the array stored for every angle would have exactly 4 roots, also where the
  leading coefficient vanishes. \<open>numpy.roots\<close> drops the leading zero coefficients
  and the loop pads nothing. Whatever \<open>w\<close> and the scalars are, an angle with
  \<open>A(theta) = 0\<close> gets at most 2 roots; and the coefficients \<open>0, 0, 0, 0, 1\<close>, which
  the loop builds from \<open>A = 1\<close>, \<open>B = -2\<close>, \<open>C = 1\<close> when \<open>c / w\<close> is 0, as it is for
  the float \<open>inf\<close>, get none.
\<close>

theorem stix_degenerate_unpadded:
  "(stix_A S P th = 0 \<longrightarrow> length (stix_roots_at w S P D th) \<le> 2)
   \<and> np_sort (np_roots [complex_of_real (0 * 1), 0, complex_of_real (0 * (- 2)), 0,
                          complex_of_real 1]) = []"
proof -
  have "length (stix_roots_at w S P D th) \<le> 2" if "stix_A S P th = 0"
    using that length_np_roots_degenerate
    by (simp add: stix_roots_at_def stix_coefficients_def Let_def)
  moreover have "np_sort (np_roots [complex_of_real (0 * 1), 0, complex_of_real (0 * (- 2)), 0,
                          complex_of_real 1]) = []"
    by (simp add: np_roots_degenerate np_sort_def)
  ultimately show ?thesis by blast
qed

theorem stix_degenerate_unpadded_witness:
  "stix_A 0 (- 1) (pi / 2) = 0 \<and> length (stix_roots_at 1 0 (- 1) 1 (pi / 2)) \<le> 2"
proof -
  have A: "stix_A 0 (- 1) (pi / 2) = 0"
    by (simp add: stix_A_def)
  with stix_degenerate_unpadded[of 0 "- 1" "pi / 2" 1 1] show ?thesis
    by blast
qed

text \<open>
  C4: a density that is neither a scalar nor a 1-D array of one entry per ion
  raises the ValueError about \<open>n_i\<close> (here a 2-D array, and a 1-D array of two
  entries for one ion). An angle array that is 2-D after squeezing raises
  UnboundLocalError, from the message of the TypeError that line 210 was to raise.
\<close>

theorem stix_shape_errors_example:
  "stix pf gf (scalar 1) (scalar 1) (One proton) (array2 2 2 [1, 1, 1, 1]) (scalar 0)
     = Inl (ValueError ''n_i'')
   \<and> stix pf gf (scalar 1) (scalar 1) (One proton) (array1 [1, 1]) (scalar 0)
     = Inl (ValueError ''n_i'')
   \<and> stix pf gf (scalar 1) (scalar 1) (One proton) (scalar 1) (array2 2 2 [0, 1, 2, 3])
     = Inl (UnboundLocalError ''k'')"
proof -
  have d1: "validate_quantities [scalar 1, scalar 1, array2 2 2 [1, 1, 1, 1]] = Inr ()"
    by (simp add: validate_quantities_def has_negative_def scalar_def array2_def)
  have d2: "validate_quantities [scalar 1, scalar 1, array1 [1, 1]] = Inr ()"
    by (simp add: validate_quantities_def has_negative_def scalar_def array1_def)
  have d3: "validate_quantities [scalar 1, scalar 1, scalar 1] = Inr ()"
    by (rule validate_quantities_scalars) simp_all
  have 1: "stix_ions (One proton) = Inr [proton]"
    by (simp add: stix_ions_def as_list_def proton_def)
  have 2: "stix_n_i [proton] (scalar 1) = Inr [1]"
    by (simp add: stix_n_i_def scalar_def ndim_def item_def)
  have 3: "stix_B (scalar 1) = Inr 1"
    by (simp add: stix_B_def scalar_def squeeze_def ndim_def item_def)
  have 4: "stix_w (scalar 1) = Inr (scalar 1)"
    by (simp add: stix_w_def scalar_def squeeze_def ndim_def)
  have a: "stix pf gf (scalar 1) (scalar 1) (One proton) (array2 2 2 [1, 1, 1, 1]) (scalar 0)
     = Inl (ValueError ''n_i'')"
    by (rule stix_density_shape_error[OF d1 1]) (simp add: array2_def ndim_def)
  have b: "stix pf gf (scalar 1) (scalar 1) (One proton) (array1 [1, 1]) (scalar 0)
     = Inl (ValueError ''n_i'')"
    by (rule stix_density_shape_error[OF d2 1]) (simp add: array1_def ndim_def size_nd_def)
  have c: "stix pf gf (scalar 1) (scalar 1) (One proton) (scalar 1) (array2 2 2 [0, 1, 2, 3])
     = Inl (UnboundLocalError ''k'')"
    by (rule stix_theta_raises[OF d3 1 2 3 4]) (simp add: array2_def ndim_def squeeze_def)
  from a b c show ?thesis by simp
qed

text \<open>
  C5: \<open>Hellinger_2016\<close> raises for every combination of arguments. A temperature
  that passes \<open>validate.temp\<close> is 0-dimensional and cannot be indexed; the body
  raises on any arguments; and the call of \<open>Hellinger_2009\<close> with four arguments
  raises.
\<close>

theorem Hellinger_2016_always_raises:
  "isl (Hellinger_2016 Coulomb_logarithm hyper2d T_par T_perp n_i ions par_speeds perp_speeds meth)
   \<and> (validate_temp T = Inr T' \<longrightarrow> ndim T' = 0 \<and> isl (getitem T' i))
   \<and> isl (Hellinger_2016_body Coulomb_logarithm hyper2d T_par T_perp n_i ions' par_speeds
            perp_speeds meth)
   \<and> isl (call_Hellinger_2009 Coulomb_logarithm T n_i ions par_speeds None)"
  using Hellinger_2016_raises Hellinger_2016_body_raises validate_temp_shape[of T T']
  by (auto simp: ndim_def getitem_scalar call_Hellinger_2009_def)

theorem Hellinger_2016_always_raises_witness:
  "isl (Hellinger_2016 (\<lambda>T n ions method. Inr 10) (\<lambda>a b c x y. 1) (scalar 300) (scalar 300)
          (scalar 1) (Many [proton, alpha_particle]) [500, 750] [500, 750] (PyStr ''classical''))
   \<and> validate_temp (scalar 300) = Inr (scalar 300)
   \<and> ndim (scalar 300) = 0 \<and> isl (getitem (scalar 300) 1)"
proof -
  have T: "validate_temp (scalar 300) = Inr (scalar 300)"
    by (rule validate_temp_scalar) simp
  from Hellinger_2016_always_raises[where T = "scalar 300" and T' = "scalar 300" and i = 1
      and Coulomb_logarithm = "\<lambda>T n ions method. Inr 10" and hyper2d = "\<lambda>a b c x y. 1"
      and T_par = "scalar 300" and T_perp = "scalar 300" and n_i = "scalar 1"
      and ions = "Many [proton, alpha_particle]" and par_speeds = "[500, 750]"
      and perp_speeds = "[500, 750]" and meth = "PyStr ''classical''"] T
  show ?thesis by simp
qed

text \<open>
  C6: when the ions and the density pass, the species are the ions followed by one
  electron, the only electron of the list, and the density paired with it is the
  sum over the ions of density times charge number.
\<close>

theorem stix_electron_appended:
  assumes "stix_ions arg = Inr ions" and "stix_n_i ions n_i = Inr ns" and "well_formed n_i"
  shows "stix_species ions = as_list arg @ [electron]
    \<and> count_list (stix_species ions) electron = 1
    \<and> length (stix_densities ions ns) = length (stix_species ions)
    \<and> last (zip (stix_species ions) (stix_densities ions ns))
        = (electron, \<Sum>i<length ions. ns ! i * real_of_int (charge_number (ions ! i)))"
proof -
  from stix_ions_positive[OF assms(1)] have ions: "ions = as_list arg"
    and pos: "\<forall>ion\<in>set ions. is_ion ion" by auto
  have "\<not> is_ion electron" by (simp add: electron_def)
  with pos have "electron \<notin> set ions" by auto
  then have cnt: "count_list ions electron = 0" by (simp add: count_list_0_iff)
  have len: "length ns = length ions" by (rule length_stix_n_i[OF assms(2,3)])
  have z: "zip (ions @ [electron]) (ns @ [t]) = zip ions ns @ [(electron, t)]" for t :: real
    using len by simp
  show ?thesis
    using ions cnt len
    by (simp add: stix_species_def stix_densities_eq z sum_list_map2_nth)
qed

theorem stix_electron_appended_witness:
  "stix_species [proton, alpha_particle] = [proton, alpha_particle, electron]
   \<and> count_list (stix_species [proton, alpha_particle]) electron = 1
   \<and> length (stix_densities [proton, alpha_particle] [400000, 200000]) = 3
   \<and> last (zip (stix_species [proton, alpha_particle])
              (stix_densities [proton, alpha_particle] [400000, 200000])) = (electron, 800000)"
proof -
  have 1: "stix_ions (Many [proton, alpha_particle]) = Inr [proton, alpha_particle]"
    by (simp add: stix_ions_def as_list_def proton_def alpha_particle_def)
  have 2: "stix_n_i [proton, alpha_particle] (array1 [400000, 200000]) = Inr [400000, 200000]"
    by (simp add: stix_n_i_def array1_def ndim_def size_nd_def)
  have 3: "well_formed (array1 [400000, 200000])"
    by (simp add: well_formed_def array1_def)
  have s: "(\<Sum>i<length [proton, alpha_particle].
              [400000, 200000] ! i * real_of_int (charge_number ([proton, alpha_particle] ! i))) = 800000"
    by (simp add: lessThan_Suc proton_def alpha_particle_def numeral_2_eq_2)
  from stix_electron_appended[OF 1 2 3] show ?thesis
    unfolding s by (simp add: as_list_def stix_species_def)
qed

text \<open>
  C7: a scalar density \<open>n\<close> that is not negative (or any scalar density, when there
  is at least one ion) gives the same result as the array of \<open>length ions\<close> entries
  \<open>n\<close>, whatever the other arguments are.
\<close>

theorem stix_density_broadcast:
  assumes "0 \<le> n \<or> ions \<noteq> []"
  shows "stix plasma_frequency gyrofrequency B w (Many ions) (scalar n) theta =
   stix plasma_frequency gyrofrequency B w (Many ions)
     (array1 (replicate (length ions) n)) theta"
proof -
  have "has_negative (array1 (replicate (length ions) n)) = has_negative (scalar n)"
    using assms by (auto simp: has_negative_def array1_def scalar_def list_ex_iff)
  then have dec: "validate_quantities [B, w, array1 (replicate (length ions) n)]
      = validate_quantities [B, w, scalar n]"
    by (simp add: validate_quantities_def)
  show ?thesis
  proof (cases "stix_ions (Many ions)")
    case (Inl e)
    then show ?thesis by (simp add: stix_def and_then_def dec)
  next
    case (Inr ions')
    then have "ions' = ions"
      by (simp add: stix_ions_def as_list_def split: if_splits)
    with Inr show ?thesis
      by (simp add: stix_def and_then_def dec stix_n_i_scalar stix_n_i_array1)
  qed
qed

theorem stix_density_broadcast_witness:
  "stix plasma_frequency_si gyrofrequency_si (scalar 1) (scalar vacuum_w)
     (Many [proton, alpha_particle]) (scalar 400000) (scalar 0) =
   stix plasma_frequency_si gyrofrequency_si (scalar 1) (scalar vacuum_w)
     (Many [proton, alpha_particle]) (array1 [400000, 400000]) (scalar 0)"
proof -
  have "(0::real) \<le> 400000 \<or> [proton, alpha_particle] \<noteq> []" by simp
  from stix_density_broadcast[OF this] show ?thesis
    by (simp add: numeral_2_eq_2)
qed

text \<open>
  C8, as amended: \<open>stix\<close> raises the ValueError about \<open>ions\<close> whenever \<open>B\<close>, \<open>w\<close> and
  \<open>n_i\<close> have passed the sign check of the decorator and one of the ions is not a
  positively charged ion. \<open>validate.ions\<close> raises it whenever one of the species is
  not a charged ion or their number is not 2, and each of the three timescale
  functions raises it then, once the temperatures and the density, which are
  validated before the species, have passed.
\<close>

theorem invalid_species_error:
  "(validate_quantities [B, w, n_i] = Inr ()
      \<and> (\<exists>ion\<in>set (as_list ions). \<not> (is_ion ion \<and> charge_number ion > 0)) \<longrightarrow>
      stix pf gf B w ions n_i theta = Inl (ValueError ''ions''))
   \<and> ((\<exists>ion\<in>set (as_list pair). \<not> (is_ion ion \<and> \<bar>charge_number ion\<bar> > 0))
        \<or> length (as_list pair) \<noteq> 2 \<longrightarrow>
      validate_ions pair = Inl (ValueError ''ions'')
      \<and> (\<not> isl (validate_temp T) \<and> \<not> isl (validate_n_i n) \<longrightarrow>
           Hellinger_2009 Coulomb_logarithm T n pair par_speeds meth = Inl (ValueError ''ions''))
      \<and> (\<not> isl (validate_temp T) \<and> \<not> isl (validate_temp T_perp) \<and> \<not> isl (validate_n_i n) \<longrightarrow>
           Hellinger_2010 Coulomb_logarithm gh T T_perp n pair par_speeds meth
             = Inl (ValueError ''ions'')
           \<and> Hellinger_2016 Coulomb_logarithm hyper2d T T_perp n pair par_speeds perp_speeds meth
             = Inl (ValueError ''ions'')))"
proof (intro conjI impI)
  assume "validate_quantities [B, w, n_i] = Inr ()
      \<and> (\<exists>ion\<in>set (as_list ions). \<not> (is_ion ion \<and> charge_number ion > 0))"
  then have dec: "validate_quantities [B, w, n_i] = Inr ()"
    and "\<exists>ion\<in>set (as_list ions). \<not> (is_ion ion \<and> charge_number ion > 0)"
    by blast+
  from stix_ions_error[OF this(2)] dec
  show "stix pf gf B w ions n_i theta = Inl (ValueError ''ions'')"
    by (simp add: stix_def and_then_def)
next
  assume bad: "(\<exists>ion\<in>set (as_list pair). \<not> (is_ion ion \<and> \<bar>charge_number ion\<bar> > 0))
        \<or> length (as_list pair) \<noteq> 2"
  note e = validate_ions_error[OF bad]
  show "validate_ions pair = Inl (ValueError ''ions'')" by (rule e)
  {
    assume "\<not> isl (validate_temp T) \<and> \<not> isl (validate_n_i n)"
    then show "Hellinger_2009 Coulomb_logarithm T n pair par_speeds meth = Inl (ValueError ''ions'')"
      using e by (auto simp: Hellinger_2009_def and_then_def split: sum.splits)
  }
  {
    assume ok: "\<not> isl (validate_temp T) \<and> \<not> isl (validate_temp T_perp) \<and> \<not> isl (validate_n_i n)"
    then show "Hellinger_2010 Coulomb_logarithm gh T T_perp n pair par_speeds meth
             = Inl (ValueError ''ions'')"
      using e by (auto simp: Hellinger_2010_def and_then_def split: sum.splits)
    from ok show "Hellinger_2016 Coulomb_logarithm hyper2d T T_perp n pair par_speeds perp_speeds meth
             = Inl (ValueError ''ions'')"
      using e by (auto simp: Hellinger_2016_def and_then_def split: sum.splits)
  }
qed

theorem invalid_species_error_witness:
  "stix plasma_frequency_si gyrofrequency_si (scalar 1) (scalar 1) (One hydrogen_atom) (scalar 1)
      (scalar 0) = Inl (ValueError ''ions'')
   \<and> validate_ions (Many [proton, hydrogen_atom]) = Inl (ValueError ''ions'')
   \<and> validate_ions (Many [proton, proton, proton]) = Inl (ValueError ''ions'')
   \<and> Hellinger_2009 (\<lambda>T n ions method. Inr 10) (scalar 300) (scalar 1) (Many [proton, hydrogen_atom])
        [500, 750] (PyStr ''classical'') = Inl (ValueError ''ions'')
   \<and> Hellinger_2010 (\<lambda>T n ions method. Inr 10) (\<lambda>a b c x. 1) (scalar 300) (scalar 300) (scalar 1)
        (Many [proton, proton, proton]) [500, 750] (PyStr ''classical'') = Inl (ValueError ''ions'')
   \<and> Hellinger_2016 (\<lambda>T n ions method. Inr 10) (\<lambda>a b c x y. 1) (scalar 300) (scalar 300) (scalar 1)
        (Many [proton, hydrogen_atom]) [500, 750] [500, 750] (PyStr ''classical'')
        = Inl (ValueError ''ions'')"
proof -
  have d: "validate_quantities [scalar 1, scalar 1, scalar 1] = Inr ()"
    by (rule validate_quantities_scalars) simp_all
  have "validate_temp (scalar 300) = Inr (scalar 300)"
    by (rule validate_temp_scalar) simp
  then have T: "\<not> isl (validate_temp (scalar 300))"
    by simp
  have n: "\<not> isl (validate_n_i (scalar 1))"
    by (simp add: validate_n_i_def scalar_def squeeze_def ndim_def item_def)
  have h: "\<exists>ion\<in>set (as_list (One hydrogen_atom)). \<not> (is_ion ion \<and> charge_number ion > 0)"
    by (simp add: as_list_def hydrogen_atom_def)
  have h2: "(\<exists>ion\<in>set (as_list (Many [proton, hydrogen_atom])). \<not> (is_ion ion \<and> \<bar>charge_number ion\<bar> > 0))
     \<or> length (as_list (Many [proton, hydrogen_atom])) \<noteq> 2"
    by (simp add: as_list_def hydrogen_atom_def)
  have h3: "(\<exists>ion\<in>set (as_list (Many [proton, proton, proton])). \<not> (is_ion ion \<and> \<bar>charge_number ion\<bar> > 0))
     \<or> length (as_list (Many [proton, proton, proton])) \<noteq> 2"
    by (simp add: as_list_def)
  note a = invalid_species_error[where ions = "One hydrogen_atom" and pf = plasma_frequency_si
        and gf = gyrofrequency_si and B = "scalar 1" and w = "scalar 1" and n_i = "scalar 1"
        and theta = "scalar 0" and pair = "Many [proton, hydrogen_atom]" and T = "scalar 300"
        and T_perp = "scalar 300" and n = "scalar 1" and Coulomb_logarithm = "\<lambda>T n ions method. Inr 10"
        and gh = "\<lambda>a b c x. 1" and hyper2d = "\<lambda>a b c x y. 1" and par_speeds = "[500, 750]"
        and perp_speeds = "[500, 750]" and meth = "PyStr ''classical''"]
  note b = invalid_species_error[where ions = "One hydrogen_atom" and pf = plasma_frequency_si
        and gf = gyrofrequency_si and B = "scalar 1" and w = "scalar 1" and n_i = "scalar 1"
        and theta = "scalar 0" and pair = "Many [proton, proton, proton]" and T = "scalar 300"
        and T_perp = "scalar 300" and n = "scalar 1" and Coulomb_logarithm = "\<lambda>T n ions method. Inr 10"
        and gh = "\<lambda>a b c x. 1" and hyper2d = "\<lambda>a b c x y. 1" and par_speeds = "[500, 750]"
        and perp_speeds = "[500, 750]" and meth = "PyStr ''classical''"]
  from a b d h h2 h3 T n show ?thesis by blast
qed

text \<open>
  C8, as stated, fails where another argument is refused first: \<open>stix\<close> with a
  hydrogen atom for an ion and \<open>w = -1\<close> raises the sign error of the decorator, and
  \<open>Hellinger_2009\<close> with a hydrogen atom among the species and a temperature array
  of two entries raises the ValueError about \<open>T\<close>.
\<close>

theorem invalid_species_error_preceded:
  "stix plasma_frequency_si gyrofrequency_si (scalar 1) (scalar (- 1)) (One hydrogen_atom)
      (scalar 1) (scalar 0) = Inl (ValueError ''can not contain negative numbers'')
   \<and> Hellinger_2009 constant_logarithm (array1 [300, 300]) (scalar 1)
        (Many [proton, hydrogen_atom]) [500, 750] (PyStr ''classical'') = Inl (ValueError ''T'')"
proof -
  have "validate_quantities [scalar 1, scalar (- 1), scalar 1]
      = Inl (ValueError ''can not contain negative numbers'')"
    by (simp add: validate_quantities_def has_negative_def scalar_def)
  then have a: "stix plasma_frequency_si gyrofrequency_si (scalar 1) (scalar (- 1)) (One hydrogen_atom)
      (scalar 1) (scalar 0) = Inl (ValueError ''can not contain negative numbers'')"
    by (simp add: stix_def and_then_def)
  have "validate_temp (array1 [300, 300]) = Inl (ValueError ''T'')"
    by (simp add: validate_temp_def and_then_def validate_quantities_def has_negative_def array1_def)
  then have b: "Hellinger_2009 constant_logarithm (array1 [300, 300]) (scalar 1)
        (Many [proton, hydrogen_atom]) [500, 750] (PyStr ''classical'') = Inl (ValueError ''T'')"
    by (simp add: Hellinger_2009_def and_then_def)
  from a b show ?thesis by simp
qed

text \<open>
  C9: when the arguments pass, the call with every angle negated passes too, and
  the array it stores for \<open>- theta\<close> is the array stored for \<open>theta\<close>.
\<close>

theorem stix_angle_symmetry:
  assumes "stix pf gf B w arg n_i theta = Inr k" and "well_formed theta"
  shows "\<exists>k'. stix pf gf B w arg n_i (negative theta) = Inr k' \<and> (\<forall>th. k' (- th) = k th)"
proof -
  from stix_InrD[OF assms(1)] obtain ions ns B0 w1 ths where
    v: "validate_quantities [B, w, n_i] = Inr ()"
       "stix_ions arg = Inr ions" "stix_n_i ions n_i = Inr ns" "stix_B B = Inr B0"
       "stix_w w = Inr w1" "ndim w1 = 0" "stix_theta theta = Inr ths"
    and k: "k = stix_core (item w1) (stix_wps pf (stix_species ions) (stix_densities ions ns))
            (stix_wcs gf B0 (stix_species ions) (stix_densities ions ns)) ths"
    by blast
  obtain S P D where spd: "stix_SPD (item w1) (stix_wps pf (stix_species ions) (stix_densities ions ns))
            (stix_wcs gf B0 (stix_species ions) (stix_densities ions ns)) = (S, P, D)"
    by (cases "stix_SPD (item w1) (stix_wps pf (stix_species ions) (stix_densities ions ns))
            (stix_wcs gf B0 (stix_species ions) (stix_densities ions ns))") auto
  have mem: "- th \<in> uminus ` set ths \<longleftrightarrow> th \<in> set ths" for th :: real
    by auto
  have "stix pf gf B w arg n_i (negative theta) =
     Inr (stix_core (item w1) (stix_wps pf (stix_species ions) (stix_densities ions ns))
            (stix_wcs gf B0 (stix_species ions) (stix_densities ions ns)) (map uminus ths))"
    by (rule stix_Inr[OF v(1-6) stix_theta_negative[OF v(7) assms(2)]])
  moreover have "stix_core (item w1) (stix_wps pf (stix_species ions) (stix_densities ions ns))
            (stix_wcs gf B0 (stix_species ions) (stix_densities ions ns)) (map uminus ths) (- th) = k th" for th
    unfolding k stix_core_lookup[OF spd]
    by (simp add: mem stix_roots_at_neg del: image_eqI)
  ultimately show ?thesis by blast
qed

theorem stix_angle_symmetry_witness:
  "\<exists>k'. stix plasma_frequency_si gyrofrequency_si (scalar 1) (scalar vacuum_w) (One proton) (scalar 0)
       (negative (scalar (pi / 2))) = Inr k'
     \<and> k' (- (pi / 2)) = Some [- (7 / 5), - (1 / 5), 1 / 5, 7 / 5]"
proof -
  have wf: "well_formed (scalar (pi / 2))"
    by (simp add: well_formed_def scalar_def)
  from stix_angle_symmetry[OF vacuum_stix[of gyrofrequency_si "pi / 2"] wf]
  obtain k' where k': "stix plasma_frequency_si gyrofrequency_si (scalar 1) (scalar vacuum_w)
       (One proton) (scalar 0) (negative (scalar (pi / 2))) = Inr k'"
    and sym: "\<forall>th. k' (- th) = [pi / 2 \<mapsto> [- (7 / 5), - (1 / 5), 1 / 5, 7 / 5]] th"
    by blast
  from sym have "k' (- (pi / 2)) = [pi / 2 \<mapsto> [- (7 / 5), - (1 / 5), 1 / 5, 7 / 5]] (pi / 2)"
    by (rule spec)
  with k' show ?thesis by simp
qed

text \<open>
  C10: for a string, \<open>validate.method\<close> would fall through and yield \<open>None\<close>, and
  \<open>Hellinger_2009\<close> would hand \<open>None\<close> to the Coulomb logarithm. The first test of
  \<open>validate.method\<close> is \<open>isinstance(method, None)\<close>, which raises TypeError: for the
  string \<open>classical\<close> the validator raises instead of yielding \<open>None\<close>, and
  \<open>Hellinger_2009\<close>, on arguments that pass the other validators, raises that
  TypeError instead of calling the Coulomb logarithm.
\<close>

theorem validate_method_string_raises:
  "validate_method (PyStr ''classical'') \<noteq> Inr PyNone
   \<and> Hellinger_2009 (\<lambda>T n ions method. Inr 10) (scalar 300) (scalar 1)
        (Many [proton, alpha_particle]) [500, 750] (PyStr ''classical'')
      = Inl (TypeError ''isinstance() arg 2 must be a type'')"
proof -
  have "validate_temp (scalar 300) = Inr (scalar 300)"
    by (rule validate_temp_scalar) simp
  moreover have "validate_n_i (scalar 1) = Inr (scalar 1)"
    by (simp add: validate_n_i_def scalar_def squeeze_def ndim_def item_def)
  moreover have "validate_ions (Many [proton, alpha_particle]) = Inr [proton, alpha_particle]"
    by (simp add: validate_ions_def as_list_def proton_def alpha_particle_def)
  moreover have "validate_speeds [500, 750] = Inr [500, 750]"
    by (simp add: validate_speeds_def)
  ultimately show ?thesis
    by (simp add: Hellinger_2009_def and_then_def validate_method_raises)
qed

end
